theory Spec2Isabelle
  imports Complex_Main
begin

section \<open>Numbers\<close>

text \<open>
  JavaScript numbers are modelled as real numbers: rounding is left out, so every
  statement below is about exact arithmetic.  Where a division can leave the finite
  numbers (the image aspect ratio), the result is a \<open>jsnum\<close>, which adds the three
  non-finite values of the language to the reals.
\<close>

datatype jsnum = Num real | PosInfinity | NegInfinity | NaN

fun is_finite :: "jsnum \<Rightarrow> bool" where
  "is_finite (Num v) = True"
| "is_finite PosInfinity = False"
| "is_finite NegInfinity = False"
| "is_finite NaN = False"

text \<open>
  The operator \<open>/\<close> of the language on \<open>jsnum\<close>.  A finite zero counts as \<open>+0\<close>
  (the operands that occur, pixel sizes and clamped widths, are never \<open>-0\<close>).
\<close>

fun js_div :: "jsnum \<Rightarrow> jsnum \<Rightarrow> jsnum" where
  "js_div NaN b = NaN"
| "js_div a NaN = NaN"
| "js_div (Num a) (Num b) =
     (if b \<noteq> 0 then Num (a / b)
      else if a = 0 then NaN
      else if 0 < a then PosInfinity else NegInfinity)"
| "js_div (Num a) PosInfinity = Num 0"
| "js_div (Num a) NegInfinity = Num 0"
| "js_div PosInfinity (Num b) = (if 0 \<le> b then PosInfinity else NegInfinity)"
| "js_div NegInfinity (Num b) = (if 0 \<le> b then NegInfinity else PosInfinity)"
| "js_div PosInfinity PosInfinity = NaN"
| "js_div PosInfinity NegInfinity = NaN"
| "js_div NegInfinity PosInfinity = NaN"
| "js_div NegInfinity NegInfinity = NaN"

text \<open>
  The operators \<open>+\<close>, \<open>*\<close> and unary \<open>-\<close> on \<open>jsnum\<close>: not-a-number is contagious,
  infinity times zero and infinity minus infinity are not numbers.  Finite results stay
  finite: overflow is not modelled.
\<close>

fun js_add :: "jsnum \<Rightarrow> jsnum \<Rightarrow> jsnum" where
  "js_add NaN b = NaN"
| "js_add a NaN = NaN"
| "js_add (Num a) (Num b) = Num (a + b)"
| "js_add (Num a) PosInfinity = PosInfinity"
| "js_add (Num a) NegInfinity = NegInfinity"
| "js_add PosInfinity (Num b) = PosInfinity"
| "js_add NegInfinity (Num b) = NegInfinity"
| "js_add PosInfinity PosInfinity = PosInfinity"
| "js_add NegInfinity NegInfinity = NegInfinity"
| "js_add PosInfinity NegInfinity = NaN"
| "js_add NegInfinity PosInfinity = NaN"

fun js_mul :: "jsnum \<Rightarrow> jsnum \<Rightarrow> jsnum" where
  "js_mul NaN b = NaN"
| "js_mul a NaN = NaN"
| "js_mul (Num a) (Num b) = Num (a * b)"
| "js_mul (Num a) PosInfinity =
     (if a = 0 then NaN else if 0 < a then PosInfinity else NegInfinity)"
| "js_mul (Num a) NegInfinity =
     (if a = 0 then NaN else if 0 < a then NegInfinity else PosInfinity)"
| "js_mul PosInfinity (Num b) =
     (if b = 0 then NaN else if 0 < b then PosInfinity else NegInfinity)"
| "js_mul NegInfinity (Num b) =
     (if b = 0 then NaN else if 0 < b then NegInfinity else PosInfinity)"
| "js_mul PosInfinity PosInfinity = PosInfinity"
| "js_mul NegInfinity NegInfinity = PosInfinity"
| "js_mul PosInfinity NegInfinity = NegInfinity"
| "js_mul NegInfinity PosInfinity = NegInfinity"

fun js_neg :: "jsnum \<Rightarrow> jsnum" where
  "js_neg (Num a) = Num (- a)"
| "js_neg PosInfinity = NegInfinity"
| "js_neg NegInfinity = PosInfinity"
| "js_neg NaN = NaN"

text \<open>
  \<open>v || d\<close>: on a finite number the default replaces a zero; on a \<open>jsnum\<close> it replaces
  a zero and not-a-number, the two falsy numbers.
\<close>

definition js_or :: "real \<Rightarrow> real \<Rightarrow> real" where
  "js_or v d = (if v = 0 then d else v)"

fun js_or_num :: "jsnum \<Rightarrow> jsnum \<Rightarrow> jsnum" where
  "js_or_num (Num v) d = (if v = 0 then d else Num v)"
| "js_or_num NaN d = d"
| "js_or_num PosInfinity d = PosInfinity"
| "js_or_num NegInfinity d = NegInfinity"

section \<open>Library primitives\<close>

text \<open>
  Modelled from the spec: \<open>THREE.MathUtils.lerp\<close>, \<open>THREE.MathUtils.damp\<close> and
  \<open>THREE.MathUtils.clamp\<close> belong to the three.js library, which is not under src/.
  Section 4.2 of the specification gives \<open>current' = target + (current - target) *
  exp(-rate * dt)\<close> "or an equivalent numerically stable form"; the form taken here is
  the library's, a linear interpolation with weight \<open>1 - exp(-lambda * dt)\<close>.
\<close>

definition lerp :: "real \<Rightarrow> real \<Rightarrow> real \<Rightarrow> real" where
  "lerp x y t = (1 - t) * x + t * y"

definition damp :: "real \<Rightarrow> real \<Rightarrow> real \<Rightarrow> real \<Rightarrow> real" where
  "damp x y lambda dt = lerp x y (1 - exp (- lambda * dt))"

definition clamp :: "real \<Rightarrow> real \<Rightarrow> real \<Rightarrow> real" where
  "clamp v lo hi = max lo (min hi v)"

text \<open>
  Modelled from the spec: the same two library functions where the current value and the
  target may be infinite or not a number (the panel of the callout); the rate and the
  elapsed time are finite, so the weight is.
\<close>

definition lerp_js :: "jsnum \<Rightarrow> jsnum \<Rightarrow> real \<Rightarrow> jsnum" where
  "lerp_js x y t = js_add (js_mul (Num (1 - t)) x) (js_mul (Num t) y)"

definition damp_js :: "jsnum \<Rightarrow> jsnum \<Rightarrow> real \<Rightarrow> real \<Rightarrow> jsnum" where
  "damp_js x y lambda dt = lerp_js x y (1 - exp (- lambda * dt))"

section \<open>Geographic projection\<close>

datatype vector3 = Vector3 real real real

fun lengthSq :: "vector3 \<Rightarrow> real" where
  "lengthSq (Vector3 x y z) = x * x + y * y + z * z"

definition DEG2RAD :: real where
  "DEG2RAD = pi / 180"

text \<open>\<open>latLonToVec3\<close> of utils/latLongToVec.js; the default \<open>altitude = 0\<close> is passed
  explicitly.\<close>

definition latLonToVec3 :: "real \<Rightarrow> real \<Rightarrow> real \<Rightarrow> real \<Rightarrow> vector3" where
  "latLonToVec3 lat lon radius altitude =
     (let r = radius + altitude;
          phi = (90 - lat) * DEG2RAD;
          theta = (lon + 180) * DEG2RAD;
          x = - r * sin phi * cos theta;
          z = r * sin phi * sin theta;
          y = r * cos phi
      in Vector3 x y z)"

text \<open>The private copy of the same function in components/wonderLabel.jsx.\<close>

definition latLonToVec3_wonderLabel :: "real \<Rightarrow> real \<Rightarrow> real \<Rightarrow> real \<Rightarrow> vector3" where
  "latLonToVec3_wonderLabel lat lon radius altitude =
     (let r = radius + altitude;
          phi = (90 - lat) * DEG2RAD;
          theta = (lon + 180) * DEG2RAD;
          x = - r * sin phi * cos theta;
          z = r * sin phi * sin theta;
          y = r * cos phi
      in Vector3 x y z)"

section \<open>Loading overlay\<close>

text \<open>
  components/loadingOverlay.jsx.  The properties of \<open>LoadingOverlay\<close> that its state
  machine reads.  The visual
  properties (colours, bar size, label) do not reach the machine and are left out.
  Durations are in seconds, clock readings (\<open>performance.now()\<close>) in milliseconds.
\<close>

record config =
  delay :: real
  fade :: real
  unmountOnEnd :: bool
  smoothFactor :: real
  loadingCap :: real
  animateExposure :: bool
  exposureFrom :: real
  exposureTo :: real

definition default_config :: config where
  "default_config =
     \<lparr>delay = 0.6, fade = 1.6, unmountOnEnd = True, smoothFactor = 8, loadingCap = 0.96,
      animateExposure = False, exposureFrom = 0.6, exposureTo = 3\<rparr>"

datatype phase = Loading | Hold | Fading | Done

text \<open>
  The state of one overlay: the values of \<open>useProgress\<close> seen by the last render
  (\<open>active\<close>, \<open>progress\<close>), the React state (\<open>alpha\<close>, \<open>done\<close> as \<open>done_flag\<close>,
  \<open>display\<close>), the refs (\<open>phase\<close>, \<open>holdUntil\<close>, \<open>displayRef\<close>), and what the
  callback writes outward: the uniform \<open>uAlpha\<close> (through \<open>overlayMat\<close>, which records
  whether that ref is attached) and the renderer's \<open>toneMappingExposure\<close> (\<open>None\<close>
  until the overlay writes it).  \<open>finished\<close> is a counter added to the model: the
  number of calls \<open>setDone(true)\<close> made so far.  A state update is taken to be rendered
  before the next frame runs.
\<close>

record overlay =
  active :: bool
  progress :: real
  alpha :: real
  done_flag :: bool
  phase :: phase
  holdUntil :: real
  displayRef :: real
  display :: real
  overlayMat :: bool
  uAlpha :: real
  toneMappingExposure :: "real option"
  finished :: nat

definition initial_overlay :: overlay where
  "initial_overlay =
     \<lparr>active = False, progress = 0, alpha = 1, done_flag = False, phase = Loading,
      holdUntil = 0, displayRef = 0, display = 0, overlayMat = True, uAlpha = 1,
      toneMappingExposure = None, finished = 0\<rparr>"

text \<open>The effect on \<open>[active, delay]\<close> (lines 57 to 66), run at clock reading \<open>now\<close>.\<close>

definition phase_effect :: "config \<Rightarrow> real \<Rightarrow> overlay \<Rightarrow> overlay" where
  "phase_effect cfg now s =
     (let s1 = (if \<not> active s \<and> phase s = Loading
                then s\<lparr>phase := Hold, holdUntil := now + delay cfg * 1000\<rparr> else s)
      in if active s1 \<and> phase s1 \<noteq> Loading then s1\<lparr>phase := Loading\<rparr> else s1)"

text \<open>
  A render with the loader's new \<open>active\<close> and \<open>progress\<close>: the effect runs when
  \<open>active\<close> differs from the previous render (\<open>delay\<close> is a constant property).
  Mounting is the first render, where the effect always runs.
\<close>

definition render :: "config \<Rightarrow> bool \<Rightarrow> real \<Rightarrow> real \<Rightarrow> overlay \<Rightarrow> overlay" where
  "render cfg a p now s =
     (let s' = s\<lparr>active := a, progress := p\<rparr>
      in if a \<noteq> active s then phase_effect cfg now s' else s')"

definition mount :: "config \<Rightarrow> bool \<Rightarrow> real \<Rightarrow> real \<Rightarrow> overlay" where
  "mount cfg a p now = phase_effect cfg now (initial_overlay\<lparr>active := a, progress := p\<rparr>)"

text \<open>The frame callback (lines 68 to 108), in the four parts its comments name.\<close>

definition progress_smoothing :: "config \<Rightarrow> real \<Rightarrow> overlay \<Rightarrow> overlay" where
  "progress_smoothing cfg dt s =
     (let raw = js_or (progress s) 0 / 100;
          targetWhileActive = min (loadingCap cfg) (max raw (displayRef s));
          target = (if active s then targetWhileActive else 1);
          next = damp (displayRef s) target (smoothFactor cfg) dt
      in s\<lparr>displayRef := next,
            display := (if \<bar>next - display s\<bar> > 0.0001 then next else display s)\<rparr>)"

definition phase_transitions :: "real \<Rightarrow> overlay \<Rightarrow> overlay" where
  "phase_transitions now s =
     (if phase s = Hold \<and> holdUntil s \<le> now then s\<lparr>phase := Fading\<rparr> else s)"

text \<open>The value \<open>a\<close> of the callback.\<close>

definition computed_alpha :: "config \<Rightarrow> real \<Rightarrow> overlay \<Rightarrow> real" where
  "computed_alpha cfg dt s =
     (let k = (if fade cfg > 0 then 3 / fade cfg else 9999);
          targetAlpha = (if phase s = Loading \<or> phase s = Hold then 1 else 0)
      in damp (alpha s) targetAlpha k dt)"

definition alpha_animation :: "config \<Rightarrow> real \<Rightarrow> overlay \<Rightarrow> overlay" where
  "alpha_animation cfg a s =
     (let s1 = s\<lparr>uAlpha := (if overlayMat s then a else uAlpha s),
                  alpha := (if \<bar>a - alpha s\<bar> > 0.0001 then a else alpha s)\<rparr>
      in if animateExposure cfg
         then s1\<lparr>toneMappingExposure := Some (lerp (exposureFrom cfg) (exposureTo cfg) (1 - a))\<rparr>
         else s1)"

definition end_condition :: "config \<Rightarrow> real \<Rightarrow> overlay \<Rightarrow> overlay" where
  "end_condition cfg a s =
     (if phase s = Fading \<and> a < 0.01
      then (let s1 = s\<lparr>phase := Done\<rparr>
            in if unmountOnEnd cfg
               then s1\<lparr>done_flag := True, finished := Suc (finished s1)\<rparr> else s1)
      else s)"

definition overlay_frame :: "config \<Rightarrow> real \<Rightarrow> real \<Rightarrow> overlay \<Rightarrow> overlay" where
  "overlay_frame cfg dt now s =
     (if done_flag s \<and> unmountOnEnd cfg then s
      else (let s1 = progress_smoothing cfg dt s;
                s2 = phase_transitions now s1;
                a = computed_alpha cfg dt s2
            in end_condition cfg a (alpha_animation cfg a s2)))"

text \<open>
  What happens to an overlay: a render with new loader values at a clock reading, or a
  frame with its elapsed time and clock reading.
\<close>

datatype event = Render bool real real | Frame real real

fun step :: "config \<Rightarrow> event \<Rightarrow> overlay \<Rightarrow> overlay" where
  "step cfg (Render a p now) s = render cfg a p now s"
| "step cfg (Frame dt now) s = overlay_frame cfg dt now s"

fun run :: "config \<Rightarrow> overlay \<Rightarrow> event list \<Rightarrow> overlay" where
  "run cfg s [] = s"
| "run cfg s (e # es) = run cfg (step cfg e s) es"

subsection \<open>Traces and states used to state the overlay's properties\<close>

text \<open>
  The inputs of an uninterrupted loading period: renders that keep \<open>active\<close> true with
  \<open>progress\<close> at 100, and frames whose elapsed time is not negative.  \<open>elapsed\<close> adds
  up the elapsed time of the frames of a trace.
\<close>

fun loading_input :: "event \<Rightarrow> bool" where
  "loading_input (Render a p now) = (a \<and> p = 100)"
| "loading_input (Frame dt now) = (0 \<le> dt)"

fun elapsed :: "event list \<Rightarrow> real" where
  "elapsed [] = 0"
| "elapsed (Render a p now # es) = elapsed es"
| "elapsed (Frame dt now # es) = dt + elapsed es"

text \<open>
  The transition relation in the specification's words: loading to hold, hold to fading,
  fading to done, and from every phase but loading back to loading.
\<close>

definition claimed_transition :: "phase \<Rightarrow> phase \<Rightarrow> bool" where
  "claimed_transition p q =
     (p = Loading \<and> q = Hold \<or> p = Hold \<and> q = Fading \<or> p = Fading \<and> q = Done
      \<or> p \<noteq> Loading \<and> q = Loading)"

text \<open>
  An overlay with the default properties that finished once and then saw the loader start
  and stop again: mounted while loading, the loader stops at 1000 ms, one frame after a
  stall of 100 s fades the overlay out, the loader starts again at 102000 ms and stops at
  103000 ms.
\<close>

definition stalled_overlay :: overlay where
  "stalled_overlay =
     run default_config (mount default_config True 0 0)
       [Render False 100 1000, Frame 100 101000, Render True 50 102000, Render False 100 103000]"

text \<open>
  An overlay with the default properties mounted with nothing loading, one frame of half a
  second during the hold, and then the loader starts, with \<open>progress\<close> at 100 throughout.
\<close>

definition reactivated_overlay :: overlay where
  "reactivated_overlay =
     run default_config (mount default_config False 100 0) [Frame (1 / 2) 500, Render True 100 550]"

text \<open>The default properties with \<open>unmountOnEnd = false\<close>.\<close>

definition keep_mounted_config :: config where
  "keep_mounted_config = default_config\<lparr>unmountOnEnd := False\<rparr>"

text \<open>
  The invariant behind the count of \<open>setDone(true)\<close>: it was called once if \<open>done\<close> is
  set and never otherwise, and \<open>done\<close> is set only under \<open>unmountOnEnd\<close>.
\<close>

definition signal_inv :: "config \<Rightarrow> overlay \<Rightarrow> bool" where
  "signal_inv cfg s =
     (finished s = (if done_flag s then 1 else 0) \<and> (unmountOnEnd cfg \<or> \<not> done_flag s))"

section \<open>Hover callout\<close>

text \<open>components/wonderLabel.jsx.  The layout constants of \<open>WonderCallout\<close>.\<close>

definition paddingX :: real where "paddingX = 0.16"
definition paddingY :: real where "paddingY = 0.14"
definition minImgW :: real where "minImgW = 0.8"
definition maxImgW :: real where "maxImgW = 1"
definition gapY :: real where "gapY = 0.06"
definition bgPadX :: real where "bgPadX = 0.02"
definition bgPadTop :: real where "bgPadTop = 0.02"
definition bgPadBottom :: real where "bgPadBottom = 0.05"

text \<open>
  What the callout reads and writes of the background mesh: its scale and its vertical
  position.  They are \<open>jsnum\<close>s: the frame callback computes them from the image
  height.
\<close>

record mesh =
  scale_x :: jsnum
  scale_y :: jsnum
  scale_z :: jsnum
  position_y :: jsnum

text \<open>
  The state of one callout: the React state (\<open>hovered\<close>, \<open>baseSize\<close>, \<open>imgAspect\<close>),
  the five animated refs, and the render handles the callbacks write to, \<open>None\<close> while a
  ref is not attached: the background mesh, the uniform scale of the title group, the
  opacity of the image material, the scale of the image anchor (\<open>s\<close> of
  \<open>scale.set(s, s, 1)\<close>), and the opacities of the leader line and the pin.  The flag
  \<open>transparent\<close>, always set to true, is left out.
\<close>

record callout =
  hovered :: bool
  baseSize :: "real \<times> real"
  imgAspect :: jsnum
  "open" :: real
  imgOpacity :: real
  imgScale :: real
  titleScale :: real
  lineOpacity :: real
  bgMeshRef :: "mesh option"
  titleGroupRef :: "real option"
  imgRef :: "real option"
  imgAnchorRef :: "real option"
  lineRef :: "real option"
  pinMatRef :: "real option"

text \<open>The size \<open>[w, h]\<close> that \<open>onTextSync\<close> computes from the block bounds.\<close>

fun textBlockSize :: "real \<times> real \<times> real \<times> real \<Rightarrow> real \<times> real" where
  "textBlockSize (minX, minY, maxX, maxY) = ((maxX - minX) + paddingX, (maxY - minY) + paddingY)"

text \<open>
  The image layout of a render, from \<open>baseSize\<close> and \<open>imgAspect\<close>.  The image height
  and the image centre divide by the aspect ratio and are \<open>jsnum\<close>s; a finite value minus
  half an infinite one is the opposite infinity.
\<close>

definition imgW :: "real \<times> real \<Rightarrow> real" where
  "imgW bs = clamp (fst bs) minImgW maxImgW"

definition imgH :: "real \<times> real \<Rightarrow> jsnum \<Rightarrow> jsnum" where
  "imgH bs asp = js_div (Num (imgW bs)) asp"

definition imageTopY :: "real \<times> real \<Rightarrow> real" where
  "imageTopY bs = - (snd bs / 2 + gapY)"

definition imgYFixed :: "real \<times> real \<Rightarrow> jsnum \<Rightarrow> jsnum" where
  "imgYFixed bs asp =
     (case imgH bs asp of
        Num h \<Rightarrow> Num (imageTopY bs - h / 2)
      | PosInfinity \<Rightarrow> NegInfinity
      | NegInfinity \<Rightarrow> PosInfinity
      | NaN \<Rightarrow> NaN)"

definition bgBaseW :: "real \<times> real \<Rightarrow> real" where
  "bgBaseW bs = fst bs + bgPadX * 2"

definition bgBaseH :: "real \<times> real \<Rightarrow> real" where
  "bgBaseH bs = snd bs + bgPadTop * 2"

text \<open>The effect on \<open>[imgYFixed]\<close> (lines 143 to 160).\<close>

definition init_state :: "callout \<Rightarrow> callout" where
  "init_state s =
     s\<lparr>open := 0, imgOpacity := 0, imgScale := 0, titleScale := 1, lineOpacity := 0.9,
       titleGroupRef := map_option (\<lambda>_. 1) (titleGroupRef s),
       imgRef := map_option (\<lambda>_. 0) (imgRef s),
       bgMeshRef :=
         map_option
           (\<lambda>m. m\<lparr>scale_x := Num 1, scale_y := Num 1, scale_z := Num 1, position_y := Num 0\<rparr>)
           (bgMeshRef s)\<rparr>"

text \<open>
  A render after \<open>baseSize\<close> or \<open>imgAspect\<close> was set: the effect runs when the new
  \<open>imgYFixed\<close> differs from the one of the previous render.  \<open>onTextSync\<close> does
  nothing without render info; \<open>onload\<close> is the image's load handler, with the natural
  width and height of the image in pixels.
\<close>

definition rerender :: "real \<times> real \<Rightarrow> jsnum \<Rightarrow> callout \<Rightarrow> callout" where
  "rerender bs asp s =
     (let s' = s\<lparr>baseSize := bs, imgAspect := asp\<rparr>
      in if imgYFixed bs asp \<noteq> imgYFixed (baseSize s) (imgAspect s) then init_state s' else s')"

definition onTextSync :: "(real \<times> real \<times> real \<times> real) option \<Rightarrow> callout \<Rightarrow> callout" where
  "onTextSync info s =
     (case info of None \<Rightarrow> s | Some blockBounds \<Rightarrow> rerender (textBlockSize blockBounds) (imgAspect s) s)"

definition onload :: "nat \<Rightarrow> nat \<Rightarrow> callout \<Rightarrow> callout" where
  "onload width height s = rerender (baseSize s) (js_div (Num (real width)) (Num (real height))) s"

definition setHovered :: "bool \<Rightarrow> callout \<Rightarrow> callout" where
  "setHovered b s = s\<lparr>hovered := b\<rparr>"

text \<open>
  A mounted callout: the initial state and refs, all render handles attached, after the
  first run of the effect.
\<close>

definition mount_callout :: callout where
  "mount_callout =
     init_state
       \<lparr>hovered = False, baseSize = (0.6, 0.26), imgAspect = Num (16 / 9), open = 0,
        imgOpacity = 0, imgScale = 0, titleScale = 1, lineOpacity = 0.9,
        bgMeshRef =
          Some \<lparr>scale_x = Num 1, scale_y = Num 1, scale_z = Num 1, position_y = Num 0\<rparr>,
        titleGroupRef = Some 1, imgRef = Some 1, imgAnchorRef = Some 1,
        lineRef = Some 0.9, pinMatRef = Some 0.9\<rparr>"

text \<open>
  The frame callback (lines 162 to 209).  The constants of its background block are
  functions of the base size, the image height of the render (a \<open>jsnum\<close>) and the
  current open amount; \<open>extraH\<close>, \<open>scaleY\<close> and \<open>scaleX\<close> are computed with the
  operators on \<open>jsnum\<close>, so that an infinite image height and a zero base size have the
  values the language gives them.
\<close>

definition extraH :: "jsnum \<Rightarrow> real \<Rightarrow> jsnum" where
  "extraH imgH_v opn = js_mul (js_add (js_add imgH_v (Num gapY)) (Num bgPadBottom)) (Num opn)"

definition scaleY :: "real \<times> real \<Rightarrow> jsnum \<Rightarrow> real \<Rightarrow> jsnum" where
  "scaleY bs imgH_v opn =
     js_div (js_add (Num (bgBaseH bs)) (extraH imgH_v opn)) (Num (bgBaseH bs))"

definition neededW :: "real \<times> real \<Rightarrow> real" where
  "neededW bs = max (bgBaseW bs) (imgW bs + bgPadX * 2)"

definition widenedW :: "real \<times> real \<Rightarrow> real \<Rightarrow> real" where
  "widenedW bs opn = lerp (bgBaseW bs) (neededW bs) opn"

definition scaleX :: "real \<times> real \<Rightarrow> real \<Rightarrow> jsnum" where
  "scaleX bs opn = js_div (Num (widenedW bs opn)) (Num (bgBaseW bs))"

definition grow_background :: "real \<times> real \<Rightarrow> jsnum \<Rightarrow> real \<Rightarrow> real \<Rightarrow> mesh \<Rightarrow> mesh" where
  "grow_background bs imgH_v opn dt m =
     m\<lparr>scale_y := damp_js (js_or_num (scale_y m) (Num 1)) (scaleY bs imgH_v opn) 10 dt,
       position_y :=
         damp_js (js_or_num (position_y m) (Num 0)) (js_neg (js_div (extraH imgH_v opn) (Num 2)))
           10 dt,
       scale_x := damp_js (js_or_num (scale_x m) (Num 1)) (scaleX bs opn) 10 dt\<rparr>"

definition callout_frame :: "real \<Rightarrow> callout \<Rightarrow> callout" where
  "callout_frame dt s =
     (let targetOpen = (if hovered s then 1 else 0);
          open' = damp (open s) targetOpen 6 dt;
          imgOpacity' = damp (imgOpacity s) open' 10 dt;
          imgScale' = damp (imgScale s) open' 10 dt;
          targetScale = (if hovered s then 1.22 else 1);
          titleScale' = damp (titleScale s) targetScale 8 dt;
          targetLineOpacity = (if hovered s then 0.45 else 0.9);
          lineOpacity' = damp (lineOpacity s) targetLineOpacity 8 dt
      in s\<lparr>open := open', imgOpacity := imgOpacity', imgScale := imgScale',
            imgRef := map_option (\<lambda>_. imgOpacity') (imgRef s),
            imgAnchorRef := map_option (\<lambda>_. max 0.0001 imgScale') (imgAnchorRef s),
            titleScale := titleScale',
            titleGroupRef := map_option (\<lambda>_. titleScale') (titleGroupRef s),
            bgMeshRef :=
              map_option
                (grow_background (baseSize s) (imgH (baseSize s) (imgAspect s)) open' dt)
                (bgMeshRef s),
            lineOpacity := lineOpacity',
            lineRef := map_option (\<lambda>_. lineOpacity') (lineRef s),
            pinMatRef := map_option (\<lambda>_. lineOpacity') (pinMatRef s)\<rparr>)"

text \<open>The initial values of the animated quantities, with the panel at its base size.\<close>

definition collapsed :: "callout \<Rightarrow> bool" where
  "collapsed s =
     (open s = 0 \<and> imgOpacity s = 0 \<and> imgScale s = 0 \<and> titleScale s = 1 \<and> lineOpacity s = 0.9
      \<and> (case bgMeshRef s of None \<Rightarrow> True
          | Some m \<Rightarrow>
              scale_x m = Num 1 \<and> scale_y m = Num 1 \<and> scale_z m = Num 1
              \<and> position_y m = Num 0))"

section \<open>Damping\<close>

lemma damp_closed: "damp x y l dt = y + (x - y) * exp (- l * dt)"
  by (simp add: damp_def lerp_def algebra_simps)

text \<open>
  Claim C1.  The damping update equals the closed form
  \<open>target + (current - target) * exp (- rate * dt)\<close>, and one update over \<open>a + b\<close>
  gives the same value as an update over \<open>a\<close> followed by one over \<open>b\<close> toward the same
  target.  Both hold in exact arithmetic for all arguments, in particular for
  \<open>rate > 0\<close> and \<open>a, b \<ge> 0\<close>.
\<close>

theorem damp_closed_form_and_composition:
  "damp current target rate dt = target + (current - target) * exp (- rate * dt)
   \<and> damp (damp current target rate a) target rate b = damp current target rate (a + b)"
proof
  show "damp current target rate dt = target + (current - target) * exp (- rate * dt)"
    by (rule damp_closed)
next
  have "- rate * (a + b) = - rate * a + - rate * b"
    by (simp add: ring_distribs)
  then have "exp (- rate * (a + b)) = exp (- rate * a) * exp (- rate * b)"
    by (simp only: exp_add)
  then show "damp (damp current target rate a) target rate b = damp current target rate (a + b)"
    by (simp add: damp_closed)
qed

lemma exp_minus_less:
  fixes x c :: real
  assumes "0 < c" and "c < 1 + x"
  shows "exp (- x) < 1 / c"
proof -
  have "c < exp x"
    using assms(2) exp_ge_add_one_self [of x] by linarith
  then have "inverse (exp x) < inverse c"
    using assms(1) by (simp add: field_simps)
  then show ?thesis
    by (simp add: exp_minus inverse_eq_divide)
qed

lemma damp_lower:
  assumes "0 \<le> l" "0 \<le> dt" "c \<le> x" "c \<le> y"
  shows "c \<le> damp x y l dt"
proof -
  define e where "e = exp (- l * dt)"
  have e: "0 < e" "e \<le> 1"
    using assms(1,2) by (simp_all add: e_def)
  have "damp x y l dt = (1 - e) * y + e * x"
    by (simp add: damp_closed e_def algebra_simps)
  moreover have "(1 - e) * c \<le> (1 - e) * y"
    using e assms(4) by (intro mult_left_mono) simp_all
  moreover have "e * c \<le> e * x"
    using e assms(3) by (intro mult_left_mono) simp_all
  moreover have "c = (1 - e) * c + e * c"
    by (simp add: algebra_simps)
  ultimately show ?thesis
    by linarith
qed

lemma damp_upper:
  assumes "0 \<le> l" "0 \<le> dt" "x \<le> c" "y \<le> c"
  shows "damp x y l dt \<le> c"
proof -
  define e where "e = exp (- l * dt)"
  have e: "0 < e" "e \<le> 1"
    using assms(1,2) by (simp_all add: e_def)
  have "damp x y l dt = (1 - e) * y + e * x"
    by (simp add: damp_closed e_def algebra_simps)
  moreover have "(1 - e) * y \<le> (1 - e) * c"
    using e assms(4) by (intro mult_left_mono) simp_all
  moreover have "e * x \<le> e * c"
    using e assms(3) by (intro mult_left_mono) simp_all
  moreover have "c = (1 - e) * c + e * c"
    by (simp add: algebra_simps)
  ultimately show ?thesis
    by linarith
qed


section \<open>Projection\<close>

lemma sphere_algebra:
  fixes R :: real
  assumes "ct * ct + st * st = 1" and "sp * sp + cp * cp = 1"
  shows "(- R * sp * ct) * (- R * sp * ct) + (R * cp) * (R * cp) + (R * sp * st) * (R * sp * st)
    = R * R"
proof -
  have "(- R * sp * ct) * (- R * sp * ct) + (R * cp) * (R * cp) + (R * sp * st) * (R * sp * st)
      = R * R * (sp * sp * (ct * ct + st * st) + cp * cp)"
    by (simp add: algebra_simps)
  with assms show ?thesis
    by simp
qed

lemma latLonToVec3_copies: "latLonToVec3_wonderLabel = latLonToVec3"
  by (intro ext) (simp add: latLonToVec3_wonderLabel_def latLonToVec3_def)

text \<open>
  Claim C4.  Both copies of the projection compute the reference formula; at latitude 90
  the result is \<open>(0, r, 0)\<close> for every longitude; the point for latitude 0 and
  longitude 0 is \<open>(r, 0, 0)\<close>, whose squared length is \<open>r\<^sup>2\<close>; and in general the
  squared length is \<open>(radius + altitude)\<^sup>2\<close>.
\<close>

theorem latLonToVec3_reference:
  "latLonToVec3 lat lon radius altitude =
     Vector3 (- (radius + altitude) * sin ((90 - lat) * pi / 180) * cos ((lon + 180) * pi / 180))
             ((radius + altitude) * cos ((90 - lat) * pi / 180))
             ((radius + altitude) * sin ((90 - lat) * pi / 180) * sin ((lon + 180) * pi / 180))
   \<and> latLonToVec3_wonderLabel lat lon radius altitude = latLonToVec3 lat lon radius altitude
   \<and> latLonToVec3 90 lon r 0 = Vector3 0 r 0
   \<and> latLonToVec3 0 0 r 0 = Vector3 r 0 0
   \<and> lengthSq (latLonToVec3 0 0 r 0) = r * r
   \<and> lengthSq (latLonToVec3 lat lon radius altitude) = (radius + altitude) * (radius + altitude)"
proof -
  have formula: "latLonToVec3 lat lon radius altitude =
     Vector3 (- (radius + altitude) * sin ((90 - lat) * pi / 180) * cos ((lon + 180) * pi / 180))
             ((radius + altitude) * cos ((90 - lat) * pi / 180))
             ((radius + altitude) * sin ((90 - lat) * pi / 180) * sin ((lon + 180) * pi / 180))"
    by (simp add: latLonToVec3_def DEG2RAD_def Let_def algebra_simps)
  have pole: "latLonToVec3 90 lon r 0 = Vector3 0 r 0"
    by (simp add: latLonToVec3_def DEG2RAD_def Let_def)
  have "(90::real) * pi / 180 = pi / 2"
    by simp
  then have equator: "latLonToVec3 0 0 r 0 = Vector3 r 0 0"
    by (simp add: latLonToVec3_def DEG2RAD_def Let_def)
  have sphere: "lengthSq (latLonToVec3 lat lon radius altitude)
      = (radius + altitude) * (radius + altitude)" for lat lon radius altitude
  proof -
    define R where "R = radius + altitude"
    define p where "p = (90 - lat) * DEG2RAD"
    define t where "t = (lon + 180) * DEG2RAD"
    have v: "latLonToVec3 lat lon radius altitude
        = Vector3 (- R * sin p * cos t) (R * cos p) (R * sin p * sin t)"
      by (simp only: latLonToVec3_def Let_def R_def p_def t_def)
    have "lengthSq (Vector3 (- R * sin p * cos t) (R * cos p) (R * sin p * sin t)) = R * R"
      unfolding lengthSq.simps
    proof (rule sphere_algebra)
      show "cos t * cos t + sin t * sin t = 1"
        by simp
      show "sin p * sin p + cos p * cos p = 1"
        using sin_cos_squared_add [of p] by (simp add: power2_eq_square)
    qed
    then show ?thesis
      by (simp only: v R_def)
  qed
  from formula pole equator sphere [of 0 0 r 0] sphere [of lat lon radius altitude]
  show ?thesis
    by (simp add: latLonToVec3_copies)
qed

section \<open>Loading overlay: the frame callback, part by part\<close>

lemma progress_smoothing_sel:
  "active (progress_smoothing cfg dt s) = active s"
  "progress (progress_smoothing cfg dt s) = progress s"
  "alpha (progress_smoothing cfg dt s) = alpha s"
  "done_flag (progress_smoothing cfg dt s) = done_flag s"
  "phase (progress_smoothing cfg dt s) = phase s"
  "holdUntil (progress_smoothing cfg dt s) = holdUntil s"
  "finished (progress_smoothing cfg dt s) = finished s"
  "displayRef (progress_smoothing cfg dt s) =
     damp (displayRef s)
       (if active s then min (loadingCap cfg) (max (progress s / 100) (displayRef s)) else 1)
       (smoothFactor cfg) dt"
  by (simp_all add: progress_smoothing_def Let_def js_or_def)

lemma phase_transitions_sel:
  "active (phase_transitions now s) = active s"
  "progress (phase_transitions now s) = progress s"
  "alpha (phase_transitions now s) = alpha s"
  "done_flag (phase_transitions now s) = done_flag s"
  "holdUntil (phase_transitions now s) = holdUntil s"
  "finished (phase_transitions now s) = finished s"
  "displayRef (phase_transitions now s) = displayRef s"
  "phase (phase_transitions now s) =
     (if phase s = Hold \<and> holdUntil s \<le> now then Fading else phase s)"
  by (simp_all add: phase_transitions_def)

lemma alpha_animation_sel:
  "active (alpha_animation cfg a s) = active s"
  "progress (alpha_animation cfg a s) = progress s"
  "done_flag (alpha_animation cfg a s) = done_flag s"
  "phase (alpha_animation cfg a s) = phase s"
  "holdUntil (alpha_animation cfg a s) = holdUntil s"
  "finished (alpha_animation cfg a s) = finished s"
  "displayRef (alpha_animation cfg a s) = displayRef s"
  "alpha (alpha_animation cfg a s) = (if \<bar>a - alpha s\<bar> > 0.0001 then a else alpha s)"
  by (simp_all add: alpha_animation_def Let_def)

lemma end_condition_sel:
  "active (end_condition cfg a s) = active s"
  "progress (end_condition cfg a s) = progress s"
  "alpha (end_condition cfg a s) = alpha s"
  "holdUntil (end_condition cfg a s) = holdUntil s"
  "displayRef (end_condition cfg a s) = displayRef s"
  "phase (end_condition cfg a s) = (if phase s = Fading \<and> a < 0.01 then Done else phase s)"
  "done_flag (end_condition cfg a s) =
     (done_flag s \<or> phase s = Fading \<and> a < 0.01 \<and> unmountOnEnd cfg)"
  "finished (end_condition cfg a s) =
     (if phase s = Fading \<and> a < 0.01 \<and> unmountOnEnd cfg then Suc (finished s) else finished s)"
  by (auto simp add: end_condition_def Let_def)

lemmas frame_parts = progress_smoothing_sel phase_transitions_sel alpha_animation_sel
  end_condition_sel

lemma frame_gated: "done_flag s \<and> unmountOnEnd cfg \<Longrightarrow> overlay_frame cfg dt now s = s"
  by (simp add: overlay_frame_def)

lemma frame_ungated:
  "\<not> (done_flag s \<and> unmountOnEnd cfg) \<Longrightarrow>
   overlay_frame cfg dt now s =
     end_condition cfg (computed_alpha cfg dt (phase_transitions now (progress_smoothing cfg dt s)))
       (alpha_animation cfg
          (computed_alpha cfg dt (phase_transitions now (progress_smoothing cfg dt s)))
          (phase_transitions now (progress_smoothing cfg dt s)))"
  unfolding overlay_frame_def Let_def by (rule if_not_P)

lemma computed_alpha_after_transitions:
  "computed_alpha cfg dt (phase_transitions now (progress_smoothing cfg dt s)) =
     damp (alpha s)
       (if phase s = Loading \<or> phase s = Hold \<and> \<not> holdUntil s \<le> now then 1 else 0)
       (if fade cfg > 0 then 3 / fade cfg else 9999) dt"
  by (simp add: computed_alpha_def Let_def frame_parts)

lemma displayRef_frame:
  "displayRef (overlay_frame cfg dt now s) =
     (if done_flag s \<and> unmountOnEnd cfg then displayRef s
      else damp (displayRef s)
        (if active s then min (loadingCap cfg) (max (progress s / 100) (displayRef s)) else 1)
        (smoothFactor cfg) dt)"
proof (cases "done_flag s \<and> unmountOnEnd cfg")
  case True
  then show ?thesis
    by (simp add: frame_gated)
next
  case False
  show ?thesis
    by (simp only: frame_ungated [OF False] frame_parts if_not_P [OF False] if_False)
qed

lemma inputs_frame:
  "active (overlay_frame cfg dt now s) = active s"
  "progress (overlay_frame cfg dt now s) = progress s"
  "holdUntil (overlay_frame cfg dt now s) = holdUntil s"
proof -
  consider "done_flag s \<and> unmountOnEnd cfg" | "\<not> (done_flag s \<and> unmountOnEnd cfg)"
    by blast
  then have "active (overlay_frame cfg dt now s) = active s
      \<and> progress (overlay_frame cfg dt now s) = progress s
      \<and> holdUntil (overlay_frame cfg dt now s) = holdUntil s"
  proof cases
    case 1
    then show ?thesis
      by (simp add: frame_gated)
  next
    case 2
    show ?thesis
      by (simp only: frame_ungated [OF 2] frame_parts simp_thms)
  qed
  then show "active (overlay_frame cfg dt now s) = active s"
    and "progress (overlay_frame cfg dt now s) = progress s"
    and "holdUntil (overlay_frame cfg dt now s) = holdUntil s"
    by simp_all
qed

lemma phase_frame:
  "phase (overlay_frame cfg dt now s) =
     (if done_flag s \<and> unmountOnEnd cfg then phase s
      else if (phase s = Fading \<or> phase s = Hold \<and> holdUntil s \<le> now)
              \<and> damp (alpha s) 0 (if fade cfg > 0 then 3 / fade cfg else 9999) dt < 0.01
           then Done
      else if phase s = Hold \<and> holdUntil s \<le> now then Fading
      else phase s)"
proof (cases "done_flag s \<and> unmountOnEnd cfg")
  case True
  then show ?thesis
    by (simp add: frame_gated)
next
  case False
  have "phase (overlay_frame cfg dt now s) =
      (if (if phase s = Hold \<and> holdUntil s \<le> now then Fading else phase s) = Fading
          \<and> damp (alpha s)
               (if phase s = Loading \<or> phase s = Hold \<and> \<not> holdUntil s \<le> now then 1 else 0)
               (if fade cfg > 0 then 3 / fade cfg else 9999) dt < 0.01
       then Done
       else (if phase s = Hold \<and> holdUntil s \<le> now then Fading else phase s))"
    by (simp only: frame_ungated [OF False] frame_parts computed_alpha_after_transitions)
  also have "\<dots> =
      (if (phase s = Fading \<or> phase s = Hold \<and> holdUntil s \<le> now)
              \<and> damp (alpha s) 0 (if fade cfg > 0 then 3 / fade cfg else 9999) dt < 0.01
           then Done
      else if phase s = Hold \<and> holdUntil s \<le> now then Fading
      else phase s)"
    by (cases "phase s") simp_all
  finally show ?thesis
    using False by (simp only: if_not_P if_False)
qed

lemma finished_frame:
  "finished (overlay_frame cfg dt now s) =
     (if unmountOnEnd cfg \<and> \<not> done_flag s \<and> phase s \<noteq> Done
         \<and> phase (overlay_frame cfg dt now s) = Done
      then Suc (finished s) else finished s)"
proof (cases "done_flag s \<and> unmountOnEnd cfg")
  case True
  then show ?thesis
    by (simp add: frame_gated)
next
  case False
  define s2 where "s2 = phase_transitions now (progress_smoothing cfg dt s)"
  define a where "a = computed_alpha cfg dt s2"
  have f: "overlay_frame cfg dt now s = end_condition cfg a (alpha_animation cfg a s2)"
    by (simp only: frame_ungated [OF False] s2_def a_def)
  have p2: "phase s2 = Fading \<longrightarrow> phase s \<noteq> Done"
    by (cases "phase s") (simp_all add: s2_def frame_parts)
  have fin: "finished (overlay_frame cfg dt now s) =
      (if phase s2 = Fading \<and> a < 0.01 \<and> unmountOnEnd cfg then Suc (finished s) else finished s)"
    by (simp add: f frame_parts s2_def)
  have ph: "phase (overlay_frame cfg dt now s) =
      (if phase s2 = Fading \<and> a < 0.01 then Done else phase s2)"
    by (simp add: f frame_parts)
  have p3: "phase s2 = Done \<longrightarrow> phase s = Done"
    by (cases "phase s") (simp_all add: s2_def frame_parts split: if_splits)
  show ?thesis
    using False p2 p3 unfolding fin ph by auto
qed

lemma done_flag_frame:
  "done_flag (overlay_frame cfg dt now s) =
     (done_flag s \<or> unmountOnEnd cfg \<and> phase s \<noteq> Done
         \<and> phase (overlay_frame cfg dt now s) = Done)"
proof (cases "done_flag s \<and> unmountOnEnd cfg")
  case True
  then show ?thesis
    by (simp add: frame_gated)
next
  case False
  define s2 where "s2 = phase_transitions now (progress_smoothing cfg dt s)"
  define a where "a = computed_alpha cfg dt s2"
  have f: "overlay_frame cfg dt now s = end_condition cfg a (alpha_animation cfg a s2)"
    by (simp only: frame_ungated [OF False] s2_def a_def)
  have p2: "phase s2 = Fading \<longrightarrow> phase s \<noteq> Done"
    by (cases "phase s") (simp_all add: s2_def frame_parts)
  have fin: "done_flag (overlay_frame cfg dt now s) =
      (done_flag s \<or> phase s2 = Fading \<and> a < 0.01 \<and> unmountOnEnd cfg)"
    by (simp add: f frame_parts s2_def)
  have ph: "phase (overlay_frame cfg dt now s) =
      (if phase s2 = Fading \<and> a < 0.01 then Done else phase s2)"
    by (simp add: f frame_parts)
  have p3: "phase s2 = Done \<longrightarrow> phase s = Done"
    by (cases "phase s") (simp_all add: s2_def frame_parts split: if_splits)
  show ?thesis
    using False p2 p3 unfolding fin ph by auto
qed

lemma phase_effect_sel:
  "active (phase_effect cfg now s) = active s"
  "progress (phase_effect cfg now s) = progress s"
  "displayRef (phase_effect cfg now s) = displayRef s"
  "done_flag (phase_effect cfg now s) = done_flag s"
  "finished (phase_effect cfg now s) = finished s"
  "alpha (phase_effect cfg now s) = alpha s"
  "phase (phase_effect cfg now s) =
     (if active s then Loading else if phase s = Loading then Hold else phase s)"
  "holdUntil (phase_effect cfg now s) =
     (if \<not> active s \<and> phase s = Loading then now + delay cfg * 1000 else holdUntil s)"
  by (simp_all add: phase_effect_def Let_def)

lemma render_sel:
  "active (render cfg a p now s) = a"
  "progress (render cfg a p now s) = p"
  "displayRef (render cfg a p now s) = displayRef s"
  "done_flag (render cfg a p now s) = done_flag s"
  "finished (render cfg a p now s) = finished s"
  "alpha (render cfg a p now s) = alpha s"
  "phase (render cfg a p now s) =
     (if a = active s then phase s
      else if a then Loading else if phase s = Loading then Hold else phase s)"
  "holdUntil (render cfg a p now s) =
     (if a \<noteq> active s \<and> \<not> a \<and> phase s = Loading then now + delay cfg * 1000
      else holdUntil s)"
  by (simp_all add: render_def Let_def phase_effect_sel)

lemma mount_sel:
  "active (mount cfg a p now) = a"
  "progress (mount cfg a p now) = p"
  "displayRef (mount cfg a p now) = 0"
  "done_flag (mount cfg a p now) = False"
  "finished (mount cfg a p now) = 0"
  "alpha (mount cfg a p now) = 1"
  "phase (mount cfg a p now) = (if a then Loading else Hold)"
  "holdUntil (mount cfg a p now) = (if a then 0 else now + delay cfg * 1000)"
  by (simp_all add: mount_def phase_effect_sel initial_overlay_def)

section \<open>Loading overlay: phase transitions\<close>

lemma default_config_sel:
  "delay default_config = 0.6" "fade default_config = 1.6" "unmountOnEnd default_config"
  "smoothFactor default_config = 8" "loadingCap default_config = 0.96"
  by (simp_all add: default_config_def)

lemma long_frame_fades_out: "damp 1 0 (3 / 1.6) 100 < 0.01"
proof -
  have "exp (- (3 / 1.6 * 100)) < 1 / (100::real)"
    by (rule exp_minus_less) simp_all
  then show ?thesis
    by (simp add: damp_closed)
qed

text \<open>
  Claim C2, amended.  The phase changes only as follows.  The effect, which runs at mount
  and at a render where \<open>active\<close> changed, moves loading to hold when \<open>active\<close> is
  false, setting \<open>holdUntil\<close> to \<open>now + delay * 1000\<close>, and moves every phase to
  loading when \<open>active\<close> is true.  A frame whose callback is not switched off by
  \<open>done \<and> unmountOnEnd\<close> moves hold to fading when \<open>now \<ge> holdUntil\<close> and then
  fading to done when the computed alpha is below 0.01; a frame with
  \<open>done \<and> unmountOnEnd\<close> leaves the phase as it is.  Each part of the effect and of
  the callback either keeps the phase or follows an edge of the claimed relation.
\<close>

theorem overlay_phase_transitions:
  "phase (mount cfg a p now) = (if a then Loading else Hold)
   \<and> holdUntil (mount cfg a p now) = (if a then 0 else now + delay cfg * 1000)
   \<and> phase (render cfg a p now s) =
       (if a = active s then phase s
        else if a then Loading else if phase s = Loading then Hold else phase s)
   \<and> holdUntil (render cfg a p now s) =
       (if a \<noteq> active s \<and> \<not> a \<and> phase s = Loading then now + delay cfg * 1000
        else holdUntil s)
   \<and> phase (overlay_frame cfg dt now s) =
       (if done_flag s \<and> unmountOnEnd cfg then phase s
        else if (phase s = Fading \<or> phase s = Hold \<and> holdUntil s \<le> now)
                \<and> damp (alpha s) 0 (if fade cfg > 0 then 3 / fade cfg else 9999) dt < 0.01
             then Done
        else if phase s = Hold \<and> holdUntil s \<le> now then Fading
        else phase s)
   \<and> (phase (phase_effect cfg now s) = phase s
        \<or> claimed_transition (phase s) (phase (phase_effect cfg now s)))
   \<and> (phase (phase_transitions now s) = phase s
        \<or> claimed_transition (phase s) (phase (phase_transitions now s)))
   \<and> (phase (end_condition cfg x s) = phase s
        \<or> claimed_transition (phase s) (phase (end_condition cfg x s)))
   \<and> phase (progress_smoothing cfg dt s) = phase s
   \<and> phase (alpha_animation cfg x s) = phase s"
proof -
  have "phase (phase_effect cfg now s) = phase s
        \<or> claimed_transition (phase s) (phase (phase_effect cfg now s))"
    by (simp add: phase_effect_sel claimed_transition_def)
  moreover have "phase (phase_transitions now s) = phase s
        \<or> claimed_transition (phase s) (phase (phase_transitions now s))"
    by (simp add: phase_transitions_sel claimed_transition_def)
  moreover have "phase (end_condition cfg x s) = phase s
        \<or> claimed_transition (phase s) (phase (end_condition cfg x s))"
    by (simp add: end_condition_sel claimed_transition_def)
  ultimately show ?thesis
    by (simp only: mount_sel render_sel phase_frame progress_smoothing_sel alpha_animation_sel
        simp_thms)
qed

lemma stalled_overlay_sel:
  "phase stalled_overlay = Hold" "holdUntil stalled_overlay = 103600" "done_flag stalled_overlay"
proof -
  define s1 where "s1 = render default_config False 100 1000 (mount default_config True 0 0)"
  define s2 where "s2 = overlay_frame default_config 100 101000 s1"
  define s3 where "s3 = render default_config True 50 102000 s2"
  have st: "stalled_overlay = render default_config False 100 103000 s3"
    by (simp add: stalled_overlay_def s1_def s2_def s3_def)
  have s1: "phase s1 = Hold" "holdUntil s1 = 1600" "alpha s1 = 1" "\<not> done_flag s1" "\<not> active s1"
    by (simp_all add: s1_def render_sel mount_sel default_config_sel)
  have p2: "phase s2 = Done"
    unfolding s2_def phase_frame using long_frame_fades_out
    by (simp add: s1 default_config_sel)
  then have s2: "done_flag s2" "\<not> active s2"
    unfolding s2_def by (simp_all add: done_flag_frame inputs_frame s1 default_config_sel)
  have s3: "phase s3 = Loading" "done_flag s3" "active s3"
    by (simp_all add: s3_def render_sel s2)
  show "phase stalled_overlay = Hold" "holdUntil stalled_overlay = 103600"
    "done_flag stalled_overlay"
    by (simp_all add: st render_sel s3 default_config_sel)
qed

text \<open>
  The claim as stated fails once the overlay has finished with \<open>unmountOnEnd\<close>: the
  phase is hold, the hold deadline has passed, and the frame leaves the phase at hold.
\<close>

theorem hold_stalls_after_done:
  "phase stalled_overlay = Hold \<and> holdUntil stalled_overlay \<le> 200000
   \<and> phase (overlay_frame default_config 0.016 200000 stalled_overlay) = Hold"
  by (simp add: stalled_overlay_sel frame_gated default_config_sel)

section \<open>Loading overlay: the finished signal\<close>

lemma finished_step:
  "finished (step cfg e s) =
     (if unmountOnEnd cfg \<and> \<not> done_flag s \<and> phase s \<noteq> Done \<and> phase (step cfg e s) = Done
      then Suc (finished s) else finished s)"
proof (cases e)
  case (Render a p now)
  then show ?thesis
    by (simp add: render_sel)
next
  case (Frame dt now)
  then show ?thesis
    by (simp add: finished_frame)
qed

lemma done_flag_step:
  "done_flag (step cfg e s) =
     (done_flag s \<or> unmountOnEnd cfg \<and> phase s \<noteq> Done \<and> phase (step cfg e s) = Done)"
proof (cases e)
  case (Render a p now)
  then show ?thesis
    by (simp add: render_sel)
next
  case (Frame dt now)
  then show ?thesis
    by (simp add: done_flag_frame)
qed

lemma signal_inv_step: "signal_inv cfg s \<Longrightarrow> signal_inv cfg (step cfg e s)"
  unfolding signal_inv_def finished_step [of cfg e s] done_flag_step [of cfg e s]
  by auto

lemma signal_inv_run: "signal_inv cfg s \<Longrightarrow> signal_inv cfg (run cfg s es)"
  by (induction es arbitrary: s) (simp_all add: signal_inv_step)

lemma signal_inv_mount: "signal_inv cfg (mount cfg a p t0)"
  by (simp add: signal_inv_def mount_sel)

text \<open>
  Claim C7, amended.  \<open>setDone(true)\<close> is called exactly on the steps that move the phase
  into done while \<open>unmountOnEnd\<close> is set and \<open>done\<close> is not; over every trace from
  mount it is called at most once, once if \<open>done\<close> is set at the end and never otherwise;
  and without \<open>unmountOnEnd\<close> it is never called.
\<close>

theorem finished_signal:
  "finished (step cfg e s) =
     (if unmountOnEnd cfg \<and> \<not> done_flag s \<and> phase s \<noteq> Done \<and> phase (step cfg e s) = Done
      then Suc (finished s) else finished s)
   \<and> finished (run cfg (mount cfg a p t0) es)
       = (if done_flag (run cfg (mount cfg a p t0) es) then 1 else 0)
   \<and> finished (run cfg (mount cfg a p t0) es) \<le> 1
   \<and> (\<not> unmountOnEnd cfg \<longrightarrow> finished (run cfg (mount cfg a p t0) es) = 0)"
proof -
  have "signal_inv cfg (run cfg (mount cfg a p t0) es)"
    by (rule signal_inv_run) (rule signal_inv_mount)
  then show ?thesis
    unfolding signal_inv_def by (auto simp add: finished_step)
qed

text \<open>
  The claim as stated fails for \<open>unmountOnEnd = false\<close>: the phase moves from hold into
  done and \<open>setDone(true)\<close> has not been called.
\<close>

theorem no_signal_when_kept_mounted:
  "phase (mount keep_mounted_config False 100 0) = Hold
   \<and> phase (run keep_mounted_config (mount keep_mounted_config False 100 0) [Frame 100 100000]) = Done
   \<and> finished (run keep_mounted_config (mount keep_mounted_config False 100 0) [Frame 100 100000]) = 0"
proof -
  have c: "\<not> unmountOnEnd keep_mounted_config" "fade keep_mounted_config = 1.6"
    "delay keep_mounted_config = 0.6"
    by (simp_all add: keep_mounted_config_def default_config_def)
  show ?thesis
    using long_frame_fades_out by (simp add: phase_frame finished_frame mount_sel c)
qed

text \<open>An instance: two frames of an overlay that stays mounted.\<close>

theorem finished_signal_witness:
  "finished (run keep_mounted_config (mount keep_mounted_config False 100 0)
      [Frame 100 100000, Frame 0.016 100016]) = 0"
  using finished_signal
    [of keep_mounted_config "Frame 0 0" initial_overlay False 100 0
      "[Frame 100 100000, Frame 0.016 100016]"]
  by (simp add: keep_mounted_config_def default_config_def)

section \<open>Loading overlay: display progress\<close>

text \<open>
  Claim C5, amended.  On a frame where \<open>active\<close> is true and the display progress is at
  most \<open>loadingCap\<close>, the display progress does not decrease, whatever the raw progress
  does, and stays at most \<open>loadingCap\<close>.
\<close>

theorem displayProgress_monotone_below_cap:
  assumes "active s" and "displayRef s \<le> loadingCap cfg"
    and "0 \<le> smoothFactor cfg" and "0 \<le> dt"
  shows "displayRef s \<le> displayRef (overlay_frame cfg dt now s)
    \<and> displayRef (overlay_frame cfg dt now s) \<le> loadingCap cfg"
proof (cases "done_flag s \<and> unmountOnEnd cfg")
  case True
  then show ?thesis
    using assms(2) by (simp add: frame_gated)
next
  case False
  define target where "target = min (loadingCap cfg) (max (progress s / 100) (displayRef s))"
  have t: "displayRef s \<le> target" "target \<le> loadingCap cfg"
    using assms(2) by (simp_all add: target_def)
  have d: "displayRef (overlay_frame cfg dt now s) = damp (displayRef s) target (smoothFactor cfg) dt"
    by (simp only: displayRef_frame if_not_P [OF False] assms(1) if_True target_def)
  have "displayRef s \<le> damp (displayRef s) target (smoothFactor cfg) dt"
    using assms(3,4) t(1) by (intro damp_lower) simp_all
  moreover have "damp (displayRef s) target (smoothFactor cfg) dt \<le> loadingCap cfg"
    using assms(2,3,4) t(2) by (intro damp_upper) simp_all
  ultimately show ?thesis
    by (simp add: d)
qed

lemma exp_4_gt_25: "25 < exp (4::real)"
proof -
  have "1 + 1 + 1\<^sup>2 / 2 \<le> exp (1::real)"
    by (rule exp_lower_Taylor_quadratic) simp
  then have e1: "5 / 2 \<le> exp (1::real)"
    by simp
  have "(5 / 2) ^ 4 \<le> exp (1::real) ^ 4"
    using e1 by (intro power_mono) simp_all
  moreover have "exp (1::real) ^ 4 = exp 4"
    using exp_of_nat_mult [of 4 "1::real"] by simp
  moreover have "(25::real) < (5 / 2) ^ 4"
    by (simp add: power_divide)
  ultimately show ?thesis
    by linarith
qed

lemma reactivated_overlay_sel:
  "active reactivated_overlay" "progress reactivated_overlay = 100"
  "\<not> done_flag reactivated_overlay" "displayRef reactivated_overlay = 1 - exp (- 4)"
proof -
  define s0 where "s0 = mount default_config False 100 0"
  define s1 where "s1 = overlay_frame default_config (1 / 2) 500 s0"
  have r: "reactivated_overlay = render default_config True 100 550 s1"
    by (simp add: reactivated_overlay_def s0_def s1_def)
  have s0: "phase s0 = Hold" "holdUntil s0 = 600" "\<not> done_flag s0" "\<not> active s0"
    "displayRef s0 = 0"
    by (simp_all add: s0_def mount_sel default_config_sel)
  have p1: "phase s1 = Hold"
    unfolding s1_def phase_frame by (simp add: s0)
  have s1: "\<not> done_flag s1" "displayRef s1 = 1 - exp (- 4)"
    using p1 unfolding s1_def
    by (simp_all add: done_flag_frame displayRef_frame s0 default_config_sel damp_closed)
  show "active reactivated_overlay" "progress reactivated_overlay = 100"
    "\<not> done_flag reactivated_overlay" "displayRef reactivated_overlay = 1 - exp (- 4)"
    by (simp_all add: r render_sel s1)
qed

text \<open>
  The claim as stated fails after an inactive period: the loader is active, the raw
  progress is 100 before and after the frame, and the display progress decreases.
\<close>

theorem displayProgress_drops_after_reactivation:
  "active reactivated_overlay \<and> progress reactivated_overlay = 100
   \<and> progress (overlay_frame default_config 0.016 566 reactivated_overlay) = 100
   \<and> displayRef (overlay_frame default_config 0.016 566 reactivated_overlay)
       < displayRef reactivated_overlay"
proof -
  define d where "d = displayRef reactivated_overlay"
  have "exp (- 4) < 1 / (25::real)"
    using exp_4_gt_25 by (simp add: exp_minus field_simps)
  then have d: "0.96 < d"
    by (simp add: d_def reactivated_overlay_sel)
  then have m: "min 0.96 (max (100 / 100) d) = (0.96::real)"
    by simp
  have "displayRef (overlay_frame default_config 0.016 566 reactivated_overlay)
      = damp d 0.96 8 0.016"
    by (simp only: displayRef_frame reactivated_overlay_sel(1,2,3) default_config_sel
        d_def [symmetric] m simp_thms if_True if_False)
  also have "\<dots> = 0.96 + (d - 0.96) * exp (- 8 * 0.016)"
    by (rule damp_closed)
  also have "\<dots> < 0.96 + (d - 0.96) * 1"
    using d by (intro add_strict_left_mono mult_strict_left_mono) simp_all
  finally have "displayRef (overlay_frame default_config 0.016 566 reactivated_overlay) < d"
    by simp
  then show ?thesis
    by (simp add: reactivated_overlay_sel inputs_frame d_def)
qed

text \<open>An instance: the first frame of a mounted, loading overlay.\<close>

theorem displayProgress_monotone_below_cap_witness:
  "displayRef (mount default_config True 40 0)
     \<le> displayRef (overlay_frame default_config 0.016 16 (mount default_config True 40 0))
   \<and> displayRef (overlay_frame default_config 0.016 16 (mount default_config True 40 0)) \<le> 0.96"
  using displayProgress_monotone_below_cap
    [of "mount default_config True 40 0" default_config "0.016" 16]
  by (simp add: mount_sel default_config_sel)

lemma step_loading:
  assumes "loadingCap cfg \<le> 1" and "active s" and "progress s = 100" and "phase s = Loading"
    and "\<not> done_flag s" and "loading_input e"
  shows "active (step cfg e s)" and "progress (step cfg e s) = 100"
    and "phase (step cfg e s) = Loading" and "\<not> done_flag (step cfg e s)"
    and "displayRef (step cfg e s)
      = loadingCap cfg + (displayRef s - loadingCap cfg) * exp (- smoothFactor cfg * elapsed [e])"
proof -
  have "active (step cfg e s) \<and> progress (step cfg e s) = 100
    \<and> phase (step cfg e s) = Loading \<and> \<not> done_flag (step cfg e s)
    \<and> displayRef (step cfg e s)
      = loadingCap cfg + (displayRef s - loadingCap cfg) * exp (- smoothFactor cfg * elapsed [e])"
  proof (cases e)
    case (Render a p now)
    then show ?thesis
      using assms by (simp add: render_sel)
  next
    case (Frame dt now)
    have ph: "phase (overlay_frame cfg dt now s) = Loading"
      unfolding phase_frame using assms(4,5) by simp
    have t: "min (loadingCap cfg) (max (100 / 100) (displayRef s)) = loadingCap cfg"
      using assms(1) by simp
    have "displayRef (overlay_frame cfg dt now s)
        = damp (displayRef s) (loadingCap cfg) (smoothFactor cfg) dt"
      unfolding displayRef_frame using assms(2,3,5) t by simp
    then show ?thesis
      using Frame ph assms(2,3,4,5) by (simp add: inputs_frame done_flag_frame damp_closed)
  qed
  then show "active (step cfg e s)" and "progress (step cfg e s) = 100"
    and "phase (step cfg e s) = Loading" and "\<not> done_flag (step cfg e s)"
    and "displayRef (step cfg e s)
      = loadingCap cfg + (displayRef s - loadingCap cfg) * exp (- smoothFactor cfg * elapsed [e])"
    by simp_all
qed

lemma elapsed_Cons: "elapsed (e # es) = elapsed [e] + elapsed es"
  by (cases e) simp_all

lemma run_loading:
  assumes "loadingCap cfg \<le> 1"
  shows "active s \<Longrightarrow> progress s = 100 \<Longrightarrow> phase s = Loading \<Longrightarrow> \<not> done_flag s \<Longrightarrow>
    \<forall>e\<in>set es. loading_input e \<Longrightarrow>
    \<not> done_flag (run cfg s es) \<and> active (run cfg s es) \<and> progress (run cfg s es) = 100 \<and>
    displayRef (run cfg s es)
      = loadingCap cfg + (displayRef s - loadingCap cfg) * exp (- smoothFactor cfg * elapsed es)"
proof (induction es arbitrary: s)
  case Nil
  then show ?case
    by simp
next
  case (Cons e es)
  have e: "loading_input e" and es: "\<forall>e\<in>set es. loading_input e"
    using Cons.prems(5) by simp_all
  note st = step_loading [OF assms Cons.prems(1-4) e]
  have x: "exp (- smoothFactor cfg * elapsed (e # es))
      = exp (- smoothFactor cfg * elapsed [e]) * exp (- smoothFactor cfg * elapsed es)"
    by (simp only: elapsed_Cons [of e es] ring_distribs exp_add)
  note ih = Cons.IH [OF st(1-4) es]
  have "displayRef (run cfg s (e # es)) = loadingCap cfg
      + (displayRef (step cfg e s) - loadingCap cfg) * exp (- smoothFactor cfg * elapsed es)"
    using ih by simp
  also have "\<dots> = loadingCap cfg + (displayRef s - loadingCap cfg)
      * (exp (- smoothFactor cfg * elapsed [e]) * exp (- smoothFactor cfg * elapsed es))"
    by (simp only: st(5) add_diff_cancel_left' mult.assoc)
  also have "\<dots> = loadingCap cfg + (displayRef s - loadingCap cfg)
      * exp (- smoothFactor cfg * elapsed (e # es))"
    by (simp only: x)
  finally show ?case
    using ih by simp
qed

lemma loading_limit:
  fixes c l :: real
  assumes "0 < l" and "0 < \<epsilon>" and "\<bar>d\<bar> / (\<epsilon> * l) \<le> E"
  shows "\<bar>d * exp (- l * E)\<bar> < \<epsilon>"
proof -
  have "\<bar>d\<bar> / \<epsilon> = l * (\<bar>d\<bar> / (\<epsilon> * l))"
    using assms(1,2) by (simp add: field_simps)
  also have "\<dots> \<le> l * E"
    using assms(1,3) by (intro mult_left_mono) simp_all
  also have "\<dots> < 1 + l * E"
    by simp
  also have "\<dots> \<le> exp (l * E)"
    by (rule exp_ge_add_one_self)
  finally have "\<bar>d\<bar> < \<epsilon> * exp (l * E)"
    using assms(2) by (simp add: field_simps)
  then have "\<bar>d\<bar> / exp (l * E) < \<epsilon>"
    by (simp add: field_simps)
  then have "\<bar>d\<bar> * exp (- l * E) < \<epsilon>"
    by (simp add: exp_minus divide_inverse)
  then show ?thesis
    by (simp add: abs_mult)
qed

text \<open>
  Claim C6, amended.  With \<open>active\<close> true and the raw progress at 100, in phase loading
  with the callback not switched off, for \<open>loadingCap \<le> 1\<close> and a positive
  \<open>smoothFactor\<close>: after the elapsed time \<open>t\<close> the display progress is
  \<open>loadingCap + (d - loadingCap) * exp (- smoothFactor * t)\<close>, where \<open>d\<close> is its value
  at the start; it never exceeds \<open>loadingCap\<close> when it starts at or below it, as it does
  from mount for \<open>loadingCap \<ge> 0\<close>, and it stays above \<open>loadingCap\<close> when it starts
  above it; the next frame damps it toward
  \<open>min loadingCap (max (progress / 100) displayRef)\<close>; and it comes as close to
  \<open>loadingCap\<close> as one likes once enough time has elapsed.
\<close>

theorem loading_cap_approached:
  assumes "loadingCap cfg \<le> 1" and "0 < smoothFactor cfg"
    and "active s" and "progress s = 100" and "phase s = Loading" and "\<not> done_flag s"
    and "\<forall>e\<in>set es. loading_input e"
  shows "displayRef (run cfg s es)
      = loadingCap cfg + (displayRef s - loadingCap cfg) * exp (- smoothFactor cfg * elapsed es)
    \<and> (displayRef s \<le> loadingCap cfg \<longrightarrow> displayRef (run cfg s es) \<le> loadingCap cfg)
    \<and> (loadingCap cfg < displayRef s \<longrightarrow> loadingCap cfg < displayRef (run cfg s es))
    \<and> (0 \<le> loadingCap cfg \<longrightarrow>
          displayRef (run cfg (mount cfg True 100 t0) es) \<le> loadingCap cfg
          \<and> displayRef (run cfg (mount cfg True 100 t0) es)
              = loadingCap cfg * (1 - exp (- smoothFactor cfg * elapsed es)))
    \<and> displayRef (overlay_frame cfg dt now (run cfg s es))
        = damp (displayRef (run cfg s es))
            (min (loadingCap cfg)
               (max (progress (run cfg s es) / 100) (displayRef (run cfg s es))))
            (smoothFactor cfg) dt
    \<and> (\<forall>\<epsilon>>0. \<exists>T. \<forall>es'. (\<forall>e\<in>set es'. loading_input e) \<and> T \<le> elapsed es' \<longrightarrow>
          \<bar>displayRef (run cfg s es') - loadingCap cfg\<bar> < \<epsilon>)"
proof -
  define c where "c = loadingCap cfg"
  define l where "l = smoothFactor cfg"
  define d where "d = displayRef s - c"
  have closed: "\<not> done_flag (run cfg s es') \<and> active (run cfg s es')
      \<and> progress (run cfg s es') = 100
      \<and> displayRef (run cfg s es') = c + d * exp (- l * elapsed es')"
    if "\<forall>e\<in>set es'. loading_input e" for es'
    using run_loading [OF assms(1,3,4,5,6) that] by (simp add: c_def l_def d_def)
  have e: "0 < exp (- l * elapsed es)"
    by simp
  have le: "displayRef s \<le> c \<longrightarrow> displayRef (run cfg s es) \<le> c"
  proof
    assume "displayRef s \<le> c"
    then have "d * exp (- l * elapsed es) \<le> 0"
      by (intro mult_nonpos_nonneg) (simp_all add: d_def)
    then show "displayRef (run cfg s es) \<le> c"
      using closed [OF assms(7)] by simp
  qed
  have gt: "c < displayRef s \<longrightarrow> c < displayRef (run cfg s es)"
  proof
    assume "c < displayRef s"
    then have "0 < d * exp (- l * elapsed es)"
      by (intro mult_pos_pos) (simp_all add: d_def)
    then show "c < displayRef (run cfg s es)"
      using closed [OF assms(7)] by simp
  qed
  have from_mount: "0 \<le> c \<longrightarrow>
      displayRef (run cfg (mount cfg True 100 t0) es) \<le> c
      \<and> displayRef (run cfg (mount cfg True 100 t0) es) = c * (1 - exp (- l * elapsed es))"
  proof
    assume c: "0 \<le> c"
    have m: "displayRef (run cfg (mount cfg True 100 t0) es) = c * (1 - exp (- l * elapsed es))"
      using run_loading [OF assms(1), of "mount cfg True 100 t0" es] assms(7)
      by (simp add: mount_sel c_def l_def algebra_simps)
    have "0 \<le> c * exp (- l * elapsed es)"
      using c by simp
    then have "displayRef (run cfg (mount cfg True 100 t0) es) \<le> c"
      unfolding m by (simp add: algebra_simps)
    then show "displayRef (run cfg (mount cfg True 100 t0) es) \<le> c
      \<and> displayRef (run cfg (mount cfg True 100 t0) es) = c * (1 - exp (- l * elapsed es))"
      using m by simp
  qed
  have frame: "displayRef (overlay_frame cfg dt now (run cfg s es))
        = damp (displayRef (run cfg s es))
            (min (loadingCap cfg)
               (max (progress (run cfg s es) / 100) (displayRef (run cfg s es))))
            (smoothFactor cfg) dt"
    unfolding displayRef_frame using closed [OF assms(7)] by simp
  have limit: "\<exists>T. \<forall>es'. (\<forall>e\<in>set es'. loading_input e) \<and> T \<le> elapsed es' \<longrightarrow>
          \<bar>displayRef (run cfg s es') - c\<bar> < \<epsilon>" if eps: "0 < \<epsilon>" for \<epsilon>
  proof (intro exI allI impI)
    fix es'
    assume a: "(\<forall>e\<in>set es'. loading_input e) \<and> \<bar>d\<bar> / (\<epsilon> * l) \<le> elapsed es'"
    have "0 < l"
      using assms(2) by (simp add: l_def)
    then have "\<bar>d * exp (- l * elapsed es')\<bar> < \<epsilon>"
      using eps a by (intro loading_limit) simp_all
    moreover have "displayRef (run cfg s es') - c = d * exp (- l * elapsed es')"
      using closed [of es'] a by simp
    ultimately show "\<bar>displayRef (run cfg s es') - c\<bar> < \<epsilon>"
      by simp
  qed
  have cf: "displayRef (run cfg s es) = c + (displayRef s - c) * exp (- l * elapsed es)"
    using closed [OF assms(7)] by (simp add: d_def)
  show ?thesis
    using cf le gt from_mount frame limit unfolding c_def l_def by (intro conjI) blast+
qed

text \<open>An instance: two frames and a render of the default overlay, loading from mount.\<close>

theorem loading_cap_approached_witness:
  "displayRef (run default_config (mount default_config True 100 0)
      [Frame 0.016 16, Render True 100 20, Frame 0.017 33]) \<le> 0.96"
  using loading_cap_approached
    [of default_config "mount default_config True 100 0"
      "[Frame 0.016 16, Render True 100 20, Frame 0.017 33]" 0 0 0]
  by (simp add: default_config_sel mount_sel)

lemma reactivated_overlay_loading:
  "phase reactivated_overlay = Loading" "0.96 < displayRef reactivated_overlay"
proof -
  show "phase reactivated_overlay = Loading"
    by (simp add: reactivated_overlay_def render_sel inputs_frame mount_sel)
  have "exp (- 4) < 1 / (25::real)"
    using exp_4_gt_25 by (simp add: exp_minus field_simps)
  then show "0.96 < displayRef reactivated_overlay"
    by (simp add: reactivated_overlay_sel)
qed

text \<open>
  The claim as stated fails after an inactive period: the loader is active, the raw
  progress is 100 and the phase is loading, and the display progress is above
  \<open>loadingCap\<close> before and after a frame.
\<close>

theorem display_above_cap_while_active:
  "active reactivated_overlay \<and> progress reactivated_overlay = 100
   \<and> phase reactivated_overlay = Loading
   \<and> loadingCap default_config < displayRef reactivated_overlay
   \<and> loadingCap default_config
       < displayRef (overlay_frame default_config 0.016 566 reactivated_overlay)"
proof -
  define d where "d = displayRef reactivated_overlay"
  have d: "0.96 < d"
    unfolding d_def by (rule reactivated_overlay_loading(2))
  then have m: "min 0.96 (max (100 / 100) d) = (0.96::real)"
    by simp
  have "displayRef (overlay_frame default_config 0.016 566 reactivated_overlay)
      = damp d 0.96 8 0.016"
    by (simp only: displayRef_frame reactivated_overlay_sel(1,2,3) default_config_sel
        d_def [symmetric] m simp_thms if_True if_False)
  also have "\<dots> = 0.96 + (d - 0.96) * exp (- 8 * 0.016)"
    by (rule damp_closed)
  finally have f: "displayRef (overlay_frame default_config 0.016 566 reactivated_overlay)
      = 0.96 + (d - 0.96) * exp (- 8 * 0.016)" .
  have "0 < (d - 0.96) * exp (- 8 * 0.016)"
    using d by (intro mult_pos_pos) simp_all
  then have fr: "0.96 < displayRef (overlay_frame default_config 0.016 566 reactivated_overlay)"
    unfolding f by simp
  have cap: "loadingCap default_config = 0.96"
    by (rule default_config_sel)
  show ?thesis
    unfolding cap
    using reactivated_overlay_sel(1,2) reactivated_overlay_loading fr by (intro conjI)
qed

section \<open>Hover callout: properties\<close>

text \<open>
  Claim C3.  A frame damps the open amount toward 1 when hovered and 0 otherwise at rate
  6, the image opacity and the image scale toward the new open amount at rate 10, the
  title scale toward 1.22 when hovered and 1 otherwise at rate 8, and the line opacity
  toward 0.45 when hovered and 0.9 otherwise at rate 8.
\<close>

theorem callout_frame_targets:
  "open (callout_frame dt s) = damp (open s) (if hovered s then 1 else 0) 6 dt
   \<and> imgOpacity (callout_frame dt s) = damp (imgOpacity s) (open (callout_frame dt s)) 10 dt
   \<and> imgScale (callout_frame dt s) = damp (imgScale s) (open (callout_frame dt s)) 10 dt
   \<and> titleScale (callout_frame dt s) = damp (titleScale s) (if hovered s then 1.22 else 1) 8 dt
   \<and> lineOpacity (callout_frame dt s)
       = damp (lineOpacity s) (if hovered s then 0.45 else 0.9) 8 dt"
  by (simp add: callout_frame_def Let_def)

subsection \<open>Layout changes and the image height\<close>

lemma init_state_sel:
  "hovered (init_state s) = hovered s"
  "baseSize (init_state s) = baseSize s"
  "imgAspect (init_state s) = imgAspect s"
  "collapsed (init_state s)"
  by (cases "bgMeshRef s"; simp add: init_state_def collapsed_def)+

lemma rerender_sel:
  "hovered (rerender bs asp s) = hovered s"
  "baseSize (rerender bs asp s) = bs"
  "imgAspect (rerender bs asp s) = asp"
  by (simp_all add: rerender_def Let_def init_state_sel)

lemma rerender_collapsed:
  "imgYFixed bs asp \<noteq> imgYFixed (baseSize s) (imgAspect s) \<Longrightarrow> collapsed (rerender bs asp s)"
  by (simp add: rerender_def Let_def init_state_sel)

lemma imgW_bounds: "0.8 \<le> imgW bs" "imgW bs \<le> 1"
  by (simp_all add: imgW_def clamp_def minImgW_def maxImgW_def)

lemma mount_callout_sel:
  "hovered mount_callout = False" "baseSize mount_callout = (0.6, 0.26)"
  "imgAspect mount_callout = Num (16 / 9)" "open mount_callout = 0"
  "bgMeshRef mount_callout
     = Some \<lparr>scale_x = Num 1, scale_y = Num 1, scale_z = Num 1, position_y = Num 0\<rparr>"
  by (simp_all add: mount_callout_def init_state_def)

text \<open>
  Claim C10.  A render that changes \<open>imgYFixed\<close>, after the text bounds were measured
  again or after the image loaded, resets the five animated quantities to their initial
  values and the panel to scale 1 and offset 0, and leaves \<open>hovered\<close> as it is.
\<close>

theorem layout_change_resets_animation:
  "(imgYFixed bs asp \<noteq> imgYFixed (baseSize s) (imgAspect s) \<longrightarrow>
      collapsed (rerender bs asp s) \<and> hovered (rerender bs asp s) = hovered s)
   \<and> (imgYFixed (textBlockSize b) (imgAspect s) \<noteq> imgYFixed (baseSize s) (imgAspect s) \<longrightarrow>
      collapsed (onTextSync (Some b) s) \<and> hovered (onTextSync (Some b) s) = hovered s)
   \<and> (imgYFixed (baseSize s) (js_div (Num (real w)) (Num (real ht)))
        \<noteq> imgYFixed (baseSize s) (imgAspect s) \<longrightarrow>
      collapsed (onload w ht s) \<and> hovered (onload w ht s) = hovered s)"
  by (simp add: onTextSync_def onload_def rerender_sel rerender_collapsed)

lemma hovering_callout_sel:
  "hovered (callout_frame dt (setHovered True mount_callout))"
  "baseSize (callout_frame dt (setHovered True mount_callout)) = (0.6, 0.26)"
  "imgAspect (callout_frame dt (setHovered True mount_callout)) = Num (16 / 9)"
  "open (callout_frame dt (setHovered True mount_callout)) = 1 - exp (- 6 * dt)"
  by (simp_all add: callout_frame_def Let_def setHovered_def mount_callout_sel damp_closed)

text \<open>
  An instance: a hovered callout half a second into its expansion, when a 400 by 300
  image loads.
\<close>

theorem layout_change_resets_animation_witness:
  "hovered (callout_frame 0.5 (setHovered True mount_callout))
   \<and> open (callout_frame 0.5 (setHovered True mount_callout)) = 1 - exp (- 3)
   \<and> hovered (onload 400 300 (callout_frame 0.5 (setHovered True mount_callout)))
   \<and> collapsed (onload 400 300 (callout_frame 0.5 (setHovered True mount_callout)))"
proof -
  have "imgYFixed (0.6, 0.26) (js_div (Num (real 400)) (Num (real 300)))
      \<noteq> imgYFixed (0.6, 0.26) (Num (16 / 9))"
    by (simp add: imgYFixed_def imgH_def imgW_def clamp_def minImgW_def maxImgW_def
        imageTopY_def gapY_def)
  then show ?thesis
    using layout_change_resets_animation
      [of "(0.6, 0.26)" "Num 1" "callout_frame 0.5 (setHovered True mount_callout)"
        "(0, 0, 1, 1)" 400 300]
    by (simp add: hovering_callout_sel)
qed

text \<open>
  Claim C9, amended.  Until an image has loaded the aspect ratio is 16:9 and the image
  height is \<open>imgW * 9 / 16\<close>, with \<open>imgW\<close> between 0.8 and 1.  After a load with natural
  width \<open>w\<close> and height \<open>ht\<close> the aspect ratio is \<open>w / ht\<close> and the image height is
  \<open>imgW * ht / w\<close> when both are positive, 0 when only \<open>ht\<close> is zero, infinite when
  only \<open>w\<close> is zero and not a number when both are zero: it is finite exactly when
  \<open>w\<close> is positive.
\<close>

theorem image_height_after_load:
  "imgAspect mount_callout = Num (16 / 9)
   \<and> imgH bs (Num (16 / 9)) = Num (imgW bs * 9 / 16)
   \<and> 0.8 \<le> imgW bs \<and> imgW bs \<le> 1
   \<and> imgAspect (onload w ht s) = js_div (Num (real w)) (Num (real ht))
   \<and> imgH bs (imgAspect (onload w ht s)) =
       (if w = 0 then (if ht = 0 then NaN else PosInfinity)
        else if ht = 0 then Num 0 else Num (imgW bs * real ht / real w))
   \<and> is_finite (imgH bs (imgAspect (onload w ht s))) = (0 < w)"
proof -
  have w: "imgW bs \<noteq> 0" "0 < imgW bs"
    using imgW_bounds(1) [of bs] by simp_all
  have a: "imgAspect (onload w ht s) = js_div (Num (real w)) (Num (real ht))"
    by (simp add: onload_def rerender_sel)
  have h: "imgH bs (imgAspect (onload w ht s)) =
       (if w = 0 then (if ht = 0 then NaN else PosInfinity)
        else if ht = 0 then Num 0 else Num (imgW bs * real ht / real w))"
    unfolding a using w by (simp add: imgH_def)
  have f: "is_finite (imgH bs (imgAspect (onload w ht s))) = (0 < w)"
    unfolding h by simp
  have d: "imgH bs (Num (16 / 9)) = Num (imgW bs * 9 / 16)"
    by (simp add: imgH_def)
  show ?thesis
    using mount_callout_sel(3) d imgW_bounds [of bs] a h f by (intro conjI)
qed

text \<open>
  The claim as stated fails for a loaded image of natural width 0: the aspect ratio is 0
  and the image height is infinite; with height 0 as well the image height is not a
  number.
\<close>

theorem image_height_not_finite:
  "imgAspect (onload 0 600 mount_callout) = Num 0
   \<and> imgH (baseSize (onload 0 600 mount_callout)) (imgAspect (onload 0 600 mount_callout))
       = PosInfinity
   \<and> \<not> is_finite
        (imgH (baseSize (onload 0 600 mount_callout)) (imgAspect (onload 0 600 mount_callout)))
   \<and> imgH (baseSize (onload 0 0 mount_callout)) (imgAspect (onload 0 0 mount_callout)) = NaN"
  by (simp add: onload_def rerender_sel mount_callout_sel imgH_def imgW_def clamp_def
      minImgW_def maxImgW_def)

subsection \<open>Panel size\<close>

lemma open_frame_unit:
  assumes "0 \<le> open s" and "open s \<le> 1" and "0 \<le> dt"
  shows "0 \<le> open (callout_frame dt s)" and "open (callout_frame dt s) \<le> 1"
proof -
  have o: "open (callout_frame dt s) = damp (open s) (if hovered s then 1 else 0) 6 dt"
    by (simp add: callout_frame_def Let_def)
  show "0 \<le> open (callout_frame dt s)"
    unfolding o using assms by (intro damp_lower) simp_all
  show "open (callout_frame dt s) \<le> 1"
    unfolding o using assms by (intro damp_upper) simp_all
qed

lemma damp_js_Num: "damp_js (Num x) (Num y) l dt = Num (damp x y l dt)"
  by (simp add: damp_js_def lerp_js_def damp_def lerp_def)

lemma targets_not_below_base:
  assumes "0 \<le> h" and "0 \<le> opn"
  shows "extraH (Num h) opn = Num ((h + gapY + bgPadBottom) * opn)"
    and "bgBaseH bs \<le> bgBaseH bs + (h + gapY + bgPadBottom) * opn"
    and "bgBaseW bs \<le> widenedW bs opn"
proof -
  show "extraH (Num h) opn = Num ((h + gapY + bgPadBottom) * opn)"
    by (simp add: extraH_def)
  have "0 \<le> (h + gapY + bgPadBottom) * opn"
    using assms by (intro mult_nonneg_nonneg) (simp_all add: gapY_def bgPadBottom_def)
  then show "bgBaseH bs \<le> bgBaseH bs + (h + gapY + bgPadBottom) * opn"
    by simp
  have "0 \<le> opn * (neededW bs - bgBaseW bs)"
    using assms(2) by (intro mult_nonneg_nonneg) (simp_all add: neededW_def)
  moreover have "widenedW bs opn = bgBaseW bs + opn * (neededW bs - bgBaseW bs)"
    by (simp add: widenedW_def lerp_def algebra_simps)
  ultimately show "bgBaseW bs \<le> widenedW bs opn"
    by simp
qed

text \<open>
  Every measured base size is positive, and the image height that comes from the default
  aspect ratio or from a loaded image of positive natural width is finite and not
  negative.
\<close>

lemma measured_base_positive:
  assumes "minX \<le> maxX" and "minY \<le> maxY"
  shows "0 < bgBaseW (textBlockSize (minX, minY, maxX, maxY))"
    and "0 < bgBaseH (textBlockSize (minX, minY, maxX, maxY))"
  using assms
  by (simp_all add: bgBaseW_def bgBaseH_def paddingX_def paddingY_def bgPadX_def bgPadTop_def)

lemma finite_image_height:
  assumes "asp = Num (16 / 9) \<or> asp = js_div (Num (real w)) (Num (real ht)) \<and> 0 < w"
  shows "\<exists>h. imgH bs asp = Num h \<and> 0 \<le> h"
proof -
  have w: "0 < imgW bs"
    using imgW_bounds(1) [of bs] by simp
  from assms show ?thesis
  proof
    assume "asp = Num (16 / 9)"
    then have "imgH bs asp = Num (imgW bs * 9 / 16)"
      by (simp add: imgH_def)
    moreover have "0 \<le> imgW bs * 9 / 16"
      using w by simp
    ultimately show ?thesis
      by blast
  next
    assume a: "asp = js_div (Num (real w)) (Num (real ht)) \<and> 0 < w"
    show ?thesis
    proof (cases "ht = 0")
      case True
      then have "imgH bs asp = Num 0"
        using a by (simp add: imgH_def)
      then show ?thesis
        by simp
    next
      case False
      then have "imgH bs asp = Num (imgW bs * real ht / real w)"
        using a w by (simp add: imgH_def)
      moreover have "0 \<le> imgW bs * real ht / real w"
        using w by simp
      ultimately show ?thesis
        by blast
    qed
  qed
qed

lemma scale_targets_ge_1:
  assumes "0 < bgBaseW bs" and "0 < bgBaseH bs" and "0 \<le> h" and "0 \<le> opn"
  shows "scaleY bs (Num h) opn = Num ((bgBaseH bs + (h + gapY + bgPadBottom) * opn) / bgBaseH bs)"
    and "1 \<le> (bgBaseH bs + (h + gapY + bgPadBottom) * opn) / bgBaseH bs"
    and "scaleX bs opn = Num (widenedW bs opn / bgBaseW bs)"
    and "1 \<le> widenedW bs opn / bgBaseW bs"
  using targets_not_below_base(1) [OF assms(3,4)] targets_not_below_base(2,3) [OF assms(3,4), of bs]
    assms(1,2)
  by (simp_all add: scaleY_def scaleX_def)

text \<open>
  Claim C8, amended.  For a positive base size, as every measured one is, and an image
  height that is finite, as it is under the default aspect ratio and for a loaded image of
  positive natural width: the image height is not negative; for every open amount in
  \<open>[0, 1]\<close> the height target \<open>bgBaseH + extraH\<close> and the width target \<open>widenedW\<close>
  are at least the base height and width; and a frame of a callout whose open amount is
  in \<open>[0, 1]\<close> and whose panel scale is finite and at least 1 keeps both, so that the
  damped panel is at least as wide and as high as the base.
\<close>

theorem panel_not_below_base:
  assumes "0 < bgBaseW (baseSize s)" and "0 < bgBaseH (baseSize s)"
    and "imgAspect s = Num (16 / 9)
      \<or> imgAspect s = js_div (Num (real w)) (Num (real ht)) \<and> 0 < w"
    and "0 \<le> open s" and "open s \<le> 1" and "0 \<le> dt"
    and "bgMeshRef s = Some m" and "scale_x m = Num sx" and "1 \<le> sx"
    and "scale_y m = Num sy" and "1 \<le> sy"
  shows "\<exists>h sx' sy' m'.
      imgH (baseSize s) (imgAspect s) = Num h \<and> 0 \<le> h
    \<and> (\<forall>opn. 0 \<le> opn \<and> opn \<le> 1 \<longrightarrow>
            extraH (Num h) opn = Num ((h + gapY + bgPadBottom) * opn)
            \<and> bgBaseH (baseSize s) \<le> bgBaseH (baseSize s) + (h + gapY + bgPadBottom) * opn
            \<and> bgBaseW (baseSize s) \<le> widenedW (baseSize s) opn)
    \<and> 0 \<le> open (callout_frame dt s) \<and> open (callout_frame dt s) \<le> 1
    \<and> bgMeshRef (callout_frame dt s) = Some m'
    \<and> scale_x m' = Num sx' \<and> 1 \<le> sx' \<and> scale_y m' = Num sy' \<and> 1 \<le> sy'
    \<and> bgBaseW (baseSize s) \<le> sx' * bgBaseW (baseSize s)
    \<and> bgBaseH (baseSize s) \<le> sy' * bgBaseH (baseSize s)"
proof -
  define bs where "bs = baseSize s"
  define opn where "opn = open (callout_frame dt s)"
  obtain h where h: "imgH bs (imgAspect s) = Num h" "0 \<le> h"
    using finite_image_height [OF assms(3)] by blast
  define Y where "Y = (bgBaseH bs + (h + gapY + bgPadBottom) * opn) / bgBaseH bs"
  define X where "X = widenedW bs opn / bgBaseW bs"
  define m' where "m' = grow_background bs (Num h) opn dt m"
  define sx' where "sx' = damp sx X 10 dt"
  define sy' where "sy' = damp sy Y 10 dt"
  have opn: "0 \<le> opn" "opn \<le> 1"
    unfolding opn_def using assms(4,5,6) by (rule open_frame_unit)+
  have pos: "0 < bgBaseW bs" "0 < bgBaseH bs"
    using assms(1,2) by (simp_all add: bs_def)
  note tg = scale_targets_ge_1 [OF pos h(2) opn(1)]
  have mesh: "bgMeshRef (callout_frame dt s) = Some m'"
    by (simp add: callout_frame_def Let_def assms(7) m'_def bs_def [symmetric] h(1) opn_def)
  have sy: "scale_y m' = Num sy'"
    using assms(11) by (simp add: m'_def grow_background_def assms(10) tg(1) damp_js_Num
        sy'_def Y_def)
  have sx: "scale_x m' = Num sx'"
    using assms(9) by (simp add: m'_def grow_background_def assms(8) tg(3) damp_js_Num
        sx'_def X_def)
  have sy1: "1 \<le> sy'"
    unfolding sy'_def using assms(6,11) tg(2) by (intro damp_lower) (simp_all add: Y_def)
  have sx1: "1 \<le> sx'"
    unfolding sx'_def using assms(6,9) tg(4) by (intro damp_lower) (simp_all add: X_def)
  have "bgBaseW bs * 1 \<le> bgBaseW bs * sx'" "bgBaseH bs * 1 \<le> bgBaseH bs * sy'"
    using pos sx1 sy1 by (intro mult_left_mono; simp)+
  then have size: "bgBaseW bs \<le> sx' * bgBaseW bs" "bgBaseH bs \<le> sy' * bgBaseH bs"
    by (simp_all add: mult.commute)
  have targets: "\<forall>opn. 0 \<le> opn \<and> opn \<le> 1 \<longrightarrow>
            extraH (Num h) opn = Num ((h + gapY + bgPadBottom) * opn)
            \<and> bgBaseH bs \<le> bgBaseH bs + (h + gapY + bgPadBottom) * opn
            \<and> bgBaseW bs \<le> widenedW bs opn"
    using targets_not_below_base [OF h(2)] by blast
  show ?thesis
    using h targets opn mesh sx sx1 sy sy1 size unfolding bs_def opn_def by blast
qed

text \<open>An instance: the first frame of a hovered callout.\<close>

theorem panel_not_below_base_witness:
  "\<exists>sx' sy' m'. bgMeshRef (callout_frame 0.016 (setHovered True mount_callout)) = Some m'
      \<and> scale_x m' = Num sx' \<and> 1 \<le> sx' \<and> scale_y m' = Num sy' \<and> 1 \<le> sy'"
  using panel_not_below_base
    [where s = "setHovered True mount_callout" and w = 0 and ht = 0 and dt = "0.016"
       and m = "\<lparr>scale_x = Num 1, scale_y = Num 1, scale_z = Num 1, position_y = Num 0\<rparr>"
       and sx = 1 and sy = 1]
  by (simp add: setHovered_def mount_callout_sel bgBaseW_def bgBaseH_def bgPadX_def
      bgPadTop_def) blast

lemma zero_width_callout_sel:
  "hovered (onload 0 600 mount_callout) = False"
  "baseSize (onload 0 600 mount_callout) = (0.6, 0.26)"
  "imgAspect (onload 0 600 mount_callout) = Num 0"
  "open (onload 0 600 mount_callout) = 0"
  "bgMeshRef (onload 0 600 mount_callout)
     = Some \<lparr>scale_x = Num 1, scale_y = Num 1, scale_z = Num 1, position_y = Num 0\<rparr>"
proof -
  have "imgYFixed (0.6, 0.26) (Num 0) \<noteq> imgYFixed (0.6, 0.26) (Num (16 / 9))"
    by (simp add: imgYFixed_def imgH_def imgW_def clamp_def minImgW_def maxImgW_def)
  then have "onload 0 600 mount_callout
      = init_state (mount_callout\<lparr>baseSize := (0.6, 0.26), imgAspect := Num 0\<rparr>)"
    by (simp add: onload_def rerender_def Let_def mount_callout_sel)
  then show "hovered (onload 0 600 mount_callout) = False"
    "baseSize (onload 0 600 mount_callout) = (0.6, 0.26)"
    "imgAspect (onload 0 600 mount_callout) = Num 0"
    "open (onload 0 600 mount_callout) = 0"
    "bgMeshRef (onload 0 600 mount_callout)
       = Some \<lparr>scale_x = Num 1, scale_y = Num 1, scale_z = Num 1, position_y = Num 0\<rparr>"
    by (simp_all add: init_state_def mount_callout_sel)
qed

lemma zero_aspect_height: "imgH bs (Num 0) = PosInfinity"
  using imgW_bounds(1) [of bs] by (simp add: imgH_def)

lemma grow_background_infinite:
  "scale_y (grow_background bs PosInfinity 0 dt
      \<lparr>scale_x = Num 1, scale_y = Num 1, scale_z = Num 1, position_y = Num 0\<rparr>) = NaN"
  "position_y (grow_background bs PosInfinity 0 dt
      \<lparr>scale_x = Num 1, scale_y = Num 1, scale_z = Num 1, position_y = Num 0\<rparr>) = NaN"
  by (simp_all add: grow_background_def scaleY_def extraH_def damp_js_def lerp_js_def)

text \<open>
  The claim as stated fails after a load of an image of natural width 0: the base size is
  positive, the open amount is 0 and the panel scale is 1, the image height is infinite,
  and the frame makes the vertical scale and the offset of the panel not a number.
\<close>

theorem panel_scale_not_a_number:
  "0 < bgBaseW (baseSize (onload 0 600 mount_callout))
   \<and> 0 < bgBaseH (baseSize (onload 0 600 mount_callout))
   \<and> open (onload 0 600 mount_callout) = 0
   \<and> map_option scale_y (bgMeshRef (onload 0 600 mount_callout)) = Some (Num 1)
   \<and> imgH (baseSize (onload 0 600 mount_callout)) (imgAspect (onload 0 600 mount_callout))
       = PosInfinity
   \<and> open (callout_frame 0.016 (onload 0 600 mount_callout)) = 0
   \<and> map_option scale_y (bgMeshRef (callout_frame 0.016 (onload 0 600 mount_callout))) = Some NaN
   \<and> map_option position_y (bgMeshRef (callout_frame 0.016 (onload 0 600 mount_callout)))
       = Some NaN"
proof -
  have o: "open (callout_frame 0.016 (onload 0 600 mount_callout)) = 0"
    by (simp add: callout_frame_def Let_def zero_width_callout_sel damp_closed)
  have m: "bgMeshRef (callout_frame 0.016 (onload 0 600 mount_callout))
      = Some (grow_background (0.6, 0.26) (imgH (0.6, 0.26) (Num 0)) 0 0.016
          \<lparr>scale_x = Num 1, scale_y = Num 1, scale_z = Num 1, position_y = Num 0\<rparr>)"
    by (simp add: callout_frame_def Let_def zero_width_callout_sel damp_closed)
  have my: "map_option scale_y (bgMeshRef (callout_frame 0.016 (onload 0 600 mount_callout)))
      = Some NaN"
    unfolding m by (simp add: zero_aspect_height grow_background_infinite)
  have mp: "map_option position_y (bgMeshRef (callout_frame 0.016 (onload 0 600 mount_callout)))
      = Some NaN"
    unfolding m by (simp add: zero_aspect_height grow_background_infinite)
  have b: "0 < bgBaseW (baseSize (onload 0 600 mount_callout))"
    "0 < bgBaseH (baseSize (onload 0 600 mount_callout))"
    by (simp_all add: zero_width_callout_sel bgBaseW_def bgBaseH_def bgPadX_def bgPadTop_def)
  have o0: "open (onload 0 600 mount_callout) = 0"
    by (rule zero_width_callout_sel)
  have sy0: "map_option scale_y (bgMeshRef (onload 0 600 mount_callout)) = Some (Num 1)"
    by (simp add: zero_width_callout_sel)
  have h: "imgH (baseSize (onload 0 600 mount_callout)) (imgAspect (onload 0 600 mount_callout))
      = PosInfinity"
    by (simp add: zero_width_callout_sel zero_aspect_height)
  show ?thesis
    using b o0 sy0 h o my mp by (intro conjI)
qed

end
